theory Spec2Isabelle
  imports Main "HOL-Library.Sublist"
begin

section \<open>The event detail page (src/app/events/[id]/page.tsx)\<close>

subsection \<open>JavaScript values used by the page\<close>

text \<open>
  A value of type \<^verbatim>\<open>string | undefined\<close> (or \<^verbatim>\<open>string | null\<close>) is a
  \<^typ>\<open>string option\<close>. Strings are lists of bytes; the characters of the source
  outside ASCII are written as their UTF-8 bytes (the page never measures or indexes such
  a string). JavaScript's truthiness of such a value: \<^verbatim>\<open>undefined\<close>,
  \<^verbatim>\<open>null\<close> and the empty string are falsy, every other string is truthy.
\<close>

fun truthy :: "string option \<Rightarrow> bool" where
  "truthy None = False"
| "truthy (Some s) = (s \<noteq> [])"

text \<open>\<^verbatim>\<open>a || b\<close> on two optional strings, and on an optional string and a literal.\<close>

definition js_or :: "string option \<Rightarrow> string option \<Rightarrow> string option" where
  "js_or a b = (if truthy a then a else b)"

definition or_default :: "string option \<Rightarrow> string \<Rightarrow> string" where
  "or_default a d = (case a of None \<Rightarrow> d | Some s \<Rightarrow> if s = [] then d else s)"

text \<open>\<^verbatim>\<open>s.startsWith(p)\<close>.\<close>

definition startsWith :: "string \<Rightarrow> string \<Rightarrow> bool" where
  "startsWith s p = (take (length p) s = p)"

text \<open>A string interpolated into a template literal: \<^verbatim>\<open>undefined\<close> prints as its name.\<close>

definition interpolate :: "string option \<Rightarrow> string" where
  "interpolate v = (case v of None \<Rightarrow> ''undefined'' | Some s \<Rightarrow> s)"

subsection \<open>The event record\<close>

text \<open>
  Modelled from the spec: the type \<^verbatim>\<open>Events\<close> is declared in
  \<^verbatim>\<open>@/utils/contentful/types\<close>, which is not part of the source at hand. The
  record below has the fields the page reads: an identifier, a name, a short description, a
  long-form markdown description, a date, a location, a contact phone, an optional banner
  image reference, an optional ministry reference with a name, and two optional speaker
  name and image pairs. Every field except the identifier and the name is optional, and
  every link of an image or ministry reference may be missing, as the optional chaining of
  the page allows.
\<close>

record file_rec =
  url :: "string option"

record asset_fields =
  asset_file :: "file_rec option"

record asset =
  image_fields :: "asset_fields option"

record ministry_fields_rec =
  ministryName :: "string option"

record ministry_ref =
  ministry_fields :: "ministry_fields_rec option"

record sys_rec =
  sys_id :: string

record event_fields =
  eventName :: string
  briefDescription :: "string option"
  fullDescription :: "string option"
  eventDate :: "string option"
  location :: "string option"
  contactPhoneNumber :: "string option"
  bannerImage :: "asset option"
  ministry :: "ministry_ref option"
  firstSpeaker :: "string option"
  secondSpeaker :: "string option"
  firstSpeakerPicture :: "asset option"
  secondSpeakerPicture :: "asset option"

record Events =
  sys :: sys_rec
  ev_fields :: event_fields

subsection \<open>The built-in record\<close>

definition HARDCODED_fullDescription :: string where
  "HARDCODED_fullDescription =
     ''## About the Summit'' @
     [CHR 0x0A, CHR 0x0A] @
     ''On December 4'' @
     [CHR 0xE2, CHR 0x80, CHR 0x93] @
     ''5, Imo State will host a powerful gathering of leaders, investors, and visionaries ready to unlock new opportunities for growth and innovation.'' @
     [CHR 0x0A, CHR 0x0A] @
     ''From digital transformation to agriculture, education, energy, and youth empowerment, this summit is where ideas meet investment '' @
     [CHR 0xE2, CHR 0x80, CHR 0x94] @
     '' and where the future of Imo'' @
     [CHR 0x27] @
     ''s economy takes shape.'' @
     [CHR 0x0A, CHR 0x0A] @
     ''## Key Focus Areas'' @
     [CHR 0x0A, CHR 0x0A] @
     ''- **Digital Transformation**: Leveraging technology for economic growth'' @
     [CHR 0x0A] @
     ''- **Agriculture**: Modernizing farming and agribusiness'' @
     [CHR 0x0A] @
     ''- **Education**: Building skills for tomorrow'' @
     [CHR 0x27] @
     ''s workforce'' @
     [CHR 0x0A] @
     ''- **Energy**: Sustainable power solutions'' @
     [CHR 0x0A] @
     ''- **Youth Empowerment**: Creating opportunities for the next generation'' @
     [CHR 0x0A, CHR 0x0A] @
     ''## Contact Information'' @
     [CHR 0x0A, CHR 0x0A] @
     ''For more information, please contact us at info@imoeconomicsummit.com'' @
     [CHR 0x0A, CHR 0x0A] @
     ''Let'' @
     [CHR 0x27] @
     ''s shape Imo'' @
     [CHR 0x27] @
     ''s tomorrow, together. '' @
     [CHR 0xF0, CHR 0x9F, CHR 0x92, CHR 0xAA]"

definition HARDCODED_EVENT_DATA :: Events where
  "HARDCODED_EVENT_DATA =
     \<lparr> sys = \<lparr> sys_id = ''imo-economic-summit-2025'' \<rparr>,
       ev_fields = \<lparr>
         eventName = ''Imo Economic Summit 2025'',
         briefDescription = Some ''A powerful gathering of leaders, investors, and visionaries ready to unlock new opportunities for growth and innovation.'',
         fullDescription = Some HARDCODED_fullDescription,
         eventDate = Some ''2025-12-04T09:00:00.000Z'',
         location = Some ''Owerri, Imo State'',
         contactPhoneNumber = Some ''+234 803 610 1044'',
         bannerImage = Some \<lparr> image_fields = Some \<lparr> asset_file = Some \<lparr> url = Some ''/event-imo.jpeg'' \<rparr> \<rparr> \<rparr>,
         ministry = Some \<lparr> ministry_fields =
           Some \<lparr> ministryName = Some ''Ministry of Lands, Survey and Planning'' \<rparr> \<rparr>,
         firstSpeaker = None,
         secondSpeaker = None,
         firstSpeakerPicture = None,
         secondSpeakerPicture = None \<rparr> \<rparr>"

subsection \<open>The event loader\<close>

text \<open>
  The content collaborator \<^verbatim>\<open>contentfulService.getEventById\<close> is not part of the
  source; it is a parameter: for an identifier it either throws (\<open>Inl\<close> the thrown
  value) or returns a record or \<^verbatim>\<open>null\<close>. What the page does beyond computing
  its result is kept in a trace, in the order it happens: each call of the loader, each
  call of the collaborator, each line written with \<^verbatim>\<open>console.error\<close>.
  The \<^verbatim>\<open>try\<close> block encloses the whole body, so the result of the loader
  is a record or \<^verbatim>\<open>null\<close> and never a failure.
\<close>

datatype 'e effect =
    Call_getEventData string
  | Call_getEventById string
  | Console_error string 'e

type_synonym 'e collaborator = "string \<Rightarrow> 'e + Events option"

definition getEventData ::
  "'e collaborator \<Rightarrow> string \<Rightarrow> 'e effect list \<Rightarrow> Events option \<times> 'e effect list" where
  "getEventData getEventById ident t =
     (let t0 = t @ [Call_getEventData ident] in
      if ident = ''imo-economic-summit-2025'' then (Some HARDCODED_EVENT_DATA, t0)
      else
        (case getEventById ident of
           Inr event \<Rightarrow> (event, t0 @ [Call_getEventById ident])
         | Inl error \<Rightarrow>
             (None, t0 @ [Call_getEventById ident, Console_error ''Error fetching event:'' error])))"

subsection \<open>The image URL resolver\<close>

text \<open>\<^verbatim>\<open>imageField?.fields?.file?.url\<close>\<close>

definition asset_url :: "asset option \<Rightarrow> string option" where
  "asset_url imageField =
     Option.bind (Option.bind (Option.bind imageField image_fields) asset_file) url"

definition buildImageUrl :: "asset option \<Rightarrow> string option" where
  "buildImageUrl imageField =
     (case asset_url imageField of
        None \<Rightarrow> None
      | Some u \<Rightarrow>
          if u \<noteq> [] \<and> startsWith u ''/'' \<and> \<not> startsWith u ''//'' then Some u
          else if u \<noteq> [] then Some (''https:'' @ u)
          else None)"

subsection \<open>The details grid\<close>

text \<open>
  \<^verbatim>\<open>getRelativeTime\<close> comes from \<^verbatim>\<open>@/utils\<close>, which is not part of the
  source; it is a parameter. One entry of the local array \<^verbatim>\<open>details\<close> is a
  \<open>detail\<close>; the array is filtered by \<^verbatim>\<open>show\<close>.
\<close>

record detail =
  d_label :: string
  d_value :: "string option"
  d_show :: bool

definition EventDetails_details :: "(string option \<Rightarrow> string option) \<Rightarrow> Events \<Rightarrow> detail list" where
  "EventDetails_details getRelativeTime event =
     (let eventDate = getRelativeTime (eventDate (ev_fields event)) in
      filter d_show
        [ \<lparr> d_label = ''DATE:'', d_value = eventDate, d_show = True \<rparr>,
          \<lparr> d_label = ''PHONE:'', d_value = contactPhoneNumber (ev_fields event),
            d_show = truthy (contactPhoneNumber (ev_fields event)) \<rparr>,
          \<lparr> d_label = ''LOCATION:'', d_value = location (ev_fields event),
            d_show = truthy (location (ev_fields event)) \<rparr>,
          \<lparr> d_label = ''ORGANIZER:'',
            d_value = Some (or_default
              (Option.bind (Option.bind (ministry (ev_fields event)) ministry_fields) ministryName)
              ''Ministry''),
            d_show = (ministry (ev_fields event) \<noteq> None) \<rparr> ])"

text \<open>
  A rendered row: the phone row is a link (label, \<^verbatim>\<open>href\<close>, text), every other
  row a paragraph (label, text).
\<close>

datatype detail_view =
    PhoneLink string string "string option"
  | PlainText string "string option"

fun row_label :: "detail_view \<Rightarrow> string" where
  "row_label (PhoneLink l h v) = l"
| "row_label (PlainText l v) = l"

definition render_detail :: "detail \<Rightarrow> detail_view" where
  "render_detail d =
     (let isPhone = (d_label d = ''PHONE:'') in
      if isPhone then PhoneLink (d_label d) (''tel:'' @ interpolate (d_value d)) (d_value d)
      else PlainText (d_label d) (d_value d))"

definition EventDetails :: "(string option \<Rightarrow> string option) \<Rightarrow> Events \<Rightarrow> detail_view list" where
  "EventDetails getRelativeTime event = map render_detail (EventDetails_details getRelativeTime event)"

subsection \<open>The speakers grid\<close>

text \<open>
  The table \<^verbatim>\<open>STAGGER_DELAYS.MEDIUM\<close> comes from
  \<^verbatim>\<open>@/utils/constants/animations\<close>, which is not part of the source; it is the
  parameter \<open>medium\<close>, from an index to what the table holds there. A card shows its
  image only for a truthy \<^verbatim>\<open>imageUrl\<close>.
\<close>

record 'd SpeakerCard_view =
  card_speaker :: string
  card_image :: "string option"
  card_delay :: 'd

definition SpeakerCard :: "string \<Rightarrow> string option \<Rightarrow> 'd \<Rightarrow> 'd SpeakerCard_view" where
  "SpeakerCard speaker imageUrl delay =
     \<lparr> card_speaker = speaker,
       card_image = (if truthy imageUrl then imageUrl else None),
       card_delay = delay \<rparr>"

record speaker_entry =
  s_name :: "string option"
  s_imageUrl :: "string option"
  s_show :: bool

definition SpeakersSection_speakers :: "Events \<Rightarrow> speaker_entry list" where
  "SpeakersSection_speakers event =
     (let firstSpeakerImageUrl = buildImageUrl (firstSpeakerPicture (ev_fields event));
          secondSpeakerImageUrl = buildImageUrl (secondSpeakerPicture (ev_fields event)) in
      filter s_show
        [ \<lparr> s_name = firstSpeaker (ev_fields event), s_imageUrl = firstSpeakerImageUrl,
            s_show = truthy (firstSpeaker (ev_fields event)) \<rparr>,
          \<lparr> s_name = secondSpeaker (ev_fields event), s_imageUrl = secondSpeakerImageUrl,
            s_show = truthy (secondSpeaker (ev_fields event)) \<rparr> ])"

text \<open>\<open>None\<close> is the component returning \<^verbatim>\<open>null\<close>: nothing is rendered.\<close>

definition SpeakersSection :: "(nat \<Rightarrow> 'd) \<Rightarrow> Events \<Rightarrow> 'd SpeakerCard_view list option" where
  "SpeakersSection medium event =
     (let speakers = SpeakersSection_speakers event in
      if length speakers = 0 then None
      else Some (map (\<lambda>(index, speaker).
                        SpeakerCard (or_default (s_name speaker) ''Speaker'') (s_imageUrl speaker)
                          (medium index))
                   (enumerate 0 speakers)))"

subsection \<open>The page content\<close>

text \<open>
  What \<^verbatim>\<open>EventContent\<close> renders, section by section: the hero image and title, the
  standalone event image (source and alternative text) when it is rendered, the brief
  description and the markdown description when they are rendered, the details grid and
  the speakers grid. The animation wrappers carry no data of the event and are left out.
\<close>

record 'd EventContent_view =
  hero_src :: string
  hero_alt :: string
  hero_title :: string
  image_section :: "(string \<times> string) option"
  brief_section :: "string option"
  markdown_section :: "string option"
  details_section :: "detail_view list"
  speakers_section :: "'d SpeakerCard_view list option"

definition bannerImageUrl :: "Events \<Rightarrow> string" where
  "bannerImageUrl event = or_default (buildImageUrl (bannerImage (ev_fields event))) ''/hero_section.png''"

definition EventContent ::
  "(string option \<Rightarrow> string option) \<Rightarrow> (nat \<Rightarrow> 'd) \<Rightarrow> Events \<Rightarrow> 'd EventContent_view" where
  "EventContent getRelativeTime medium event =
     \<lparr> hero_src = bannerImageUrl event,
       hero_alt = or_default (Some (eventName (ev_fields event))) ''Event banner'',
       hero_title = eventName (ev_fields event),
       image_section =
         (if bannerImageUrl event \<noteq> [] \<and> bannerImageUrl event \<noteq> ''/hero_section.png''
          then Some (bannerImageUrl event, or_default (Some (eventName (ev_fields event))) ''Event image'')
          else None),
       brief_section =
         (if truthy (briefDescription (ev_fields event)) then briefDescription (ev_fields event)
          else None),
       markdown_section =
         (if truthy (fullDescription (ev_fields event)) then fullDescription (ev_fields event)
          else None),
       details_section = EventDetails getRelativeTime event,
       speakers_section = SpeakersSection medium event \<rparr>"

subsection \<open>The page\<close>

text \<open>
  Of the request the page reads the path segment \<^verbatim>\<open>params.id\<close> and the query
  parameter \<^verbatim>\<open>searchParams.id\<close>, a string, an array of strings or
  \<^verbatim>\<open>undefined\<close>. \<^verbatim>\<open>notFound()\<close> ends the page with the not-found outcome.
\<close>

datatype search_value = Undefined | Str string | Arr "string list"

record PageProps =
  params_id :: "string option"
  searchParams_id :: search_value

datatype 'd page_result = NotFound | Rendered "'d EventContent_view"

definition eventIdFromSearch :: "PageProps \<Rightarrow> string option" where
  "eventIdFromSearch props =
     (case searchParams_id props of
        Str s \<Rightarrow> Some s
      | Arr xs \<Rightarrow> (case xs of [] \<Rightarrow> None | x # rest \<Rightarrow> Some x)
      | Undefined \<Rightarrow> None)"

definition actualEventId :: "PageProps \<Rightarrow> string option" where
  "actualEventId props = js_or (eventIdFromSearch props) (params_id props)"

definition EventDetailPage ::
  "'e collaborator \<Rightarrow> (string option \<Rightarrow> string option) \<Rightarrow> (nat \<Rightarrow> 'd) \<Rightarrow> PageProps \<Rightarrow>
     'e effect list \<Rightarrow> 'd page_result \<times> 'e effect list" where
  "EventDetailPage getEventById getRelativeTime medium props t =
     (case actualEventId props of
        None \<Rightarrow> (NotFound, t)
      | Some ident \<Rightarrow>
          if ident = [] then (NotFound, t)
          else
            (case getEventData getEventById ident t of
               (None, t') \<Rightarrow> (NotFound, t')
             | (Some event, t') \<Rightarrow> (Rendered (EventContent getRelativeTime medium event), t')))"

text \<open>The identifiers a trace passes to the loader and to the collaborator.\<close>

fun loader_calls :: "'e effect list \<Rightarrow> string list" where
  "loader_calls [] = []"
| "loader_calls (Call_getEventData i # t) = i # loader_calls t"
| "loader_calls (x # t) = loader_calls t"

fun lookups :: "'e effect list \<Rightarrow> string list" where
  "lookups [] = []"
| "lookups (Call_getEventById i # t) = i # lookups t"
| "lookups (x # t) = lookups t"

subsection \<open>Sample inputs\<close>

definition host_relative_asset :: asset where
  "host_relative_asset =
     \<lparr> image_fields = Some \<lparr> asset_file = Some \<lparr> url = Some ''/event-imo.jpeg'' \<rparr> \<rparr> \<rparr>"

definition cdn_asset :: asset where
  "cdn_asset =
     \<lparr> image_fields = Some \<lparr> asset_file =
         Some \<lparr> url = Some ''//images.ctfassets.net/banner.png'' \<rparr> \<rparr> \<rparr>"

definition fileless_asset :: asset where
  "fileless_asset = \<lparr> image_fields = Some \<lparr> asset_file = None \<rparr> \<rparr>"

definition failing_service :: "string collaborator" where
  "failing_service ident = Inl ''service unreachable''"

definition empty_service :: "string collaborator" where
  "empty_service ident = Inr None"

definition path_request :: PageProps where
  "path_request = \<lparr> params_id = Some ''land-use-forum'', searchParams_id = Undefined \<rparr>"

definition both_request :: PageProps where
  "both_request = \<lparr> params_id = Some ''land-use-forum'', searchParams_id = Str ''survey-day'' \<rparr>"

definition repeated_request :: PageProps where
  "repeated_request =
     \<lparr> params_id = Some ''land-use-forum'',
       searchParams_id = Arr [''survey-day'', ''planning-week''] \<rparr>"

definition bare_request :: PageProps where
  "bare_request = \<lparr> params_id = None, searchParams_id = Undefined \<rparr>"

definition no_time :: "string option \<Rightarrow> string option" where
  "no_time d = d"

definition index_delay :: "nat \<Rightarrow> nat" where
  "index_delay i = i"

definition bare_fields :: event_fields where
  "bare_fields =
     \<lparr> eventName = ''Survey Day'', briefDescription = None, fullDescription = None,
       eventDate = None, location = None, contactPhoneNumber = None, bannerImage = None,
       ministry = None, firstSpeaker = None, secondSpeaker = None,
       firstSpeakerPicture = None, secondSpeakerPicture = None \<rparr>"

definition bare_event :: Events where
  "bare_event = \<lparr> sys = \<lparr> sys_id = ''survey-day'' \<rparr>, ev_fields = bare_fields \<rparr>"

definition nameless_ministry_event :: Events where
  "nameless_ministry_event =
     \<lparr> sys = \<lparr> sys_id = ''survey-day'' \<rparr>,
       ev_fields = bare_fields \<lparr> ministry := Some \<lparr> ministry_fields = None \<rparr> \<rparr> \<rparr>"

definition second_speaker_event :: Events where
  "second_speaker_event =
     \<lparr> sys = \<lparr> sys_id = ''survey-day'' \<rparr>,
       ev_fields = bare_fields \<lparr> firstSpeaker := Some [], secondSpeaker := Some ''Ada Obi'' \<rparr> \<rparr>"

definition cdn_banner_event :: Events where
  "cdn_banner_event =
     \<lparr> sys = \<lparr> sys_id = ''survey-day'' \<rparr>,
       ev_fields = bare_fields \<lparr> bannerImage := Some cdn_asset \<rparr> \<rparr>"

section \<open>Properties\<close>

subsection \<open>Auxiliary facts\<close>

lemma startsWith_prefix: "startsWith s p = prefix p s"
  unfolding startsWith_def
  by (metis prefix_def append_eq_conv_conj append_take_drop_id)

lemma lookups_append: "lookups (t @ u) = lookups t @ lookups u"
  by (induction t rule: lookups.induct) simp_all

lemma loader_calls_append: "loader_calls (t @ u) = loader_calls t @ loader_calls u"
  by (induction t rule: loader_calls.induct) simp_all

lemma getEventData_logs_call:
  "loader_calls (snd (getEventData getEventById ident t)) = loader_calls t @ [ident]"
  by (simp add: getEventData_def Let_def loader_calls_append split: sum.splits)

lemma EventDetailPage_trace:
  assumes "actualEventId props = Some ident" and "ident \<noteq> []"
  shows "snd (EventDetailPage getEventById getRelativeTime medium props t) =
         snd (getEventData getEventById ident t)"
proof (cases "getEventData getEventById ident t")
  case (Pair r t')
  with assms show ?thesis
    by (cases r) (simp_all add: EventDetailPage_def)
qed

lemma buildImageUrl_truthy: "buildImageUrl x = None \<or> truthy (buildImageUrl x)"
  by (simp add: buildImageUrl_def split: option.splits)

lemma SpeakerCard_image:
  "card_image (SpeakerCard speaker (buildImageUrl x) delay) = buildImageUrl x"
  using buildImageUrl_truthy [of x] by (auto simp add: SpeakerCard_def)

lemma SpeakerCard_speaker: "card_speaker (SpeakerCard speaker imageUrl delay) = speaker"
  by (simp add: SpeakerCard_def)

subsection \<open>The image URL resolver\<close>

text \<open>
  C1. For every image reference, with the url read through the optional chain: a url that
  is present (truthy, as the resolver tests it) and starts with a single slash, that is
  with \<open>/\<close> but not with \<open>//\<close>, is returned unchanged; any other present url is
  returned with \<open>https:\<close> in front; when the reference or its url is absent (the
  chain gives nothing, or the empty string) the result is \<^verbatim>\<open>null\<close>.
\<close>

theorem buildImageUrl_rule:
  "(\<forall>u. asset_url imageField = Some u \<and> u \<noteq> [] \<and> prefix ''/'' u \<and> \<not> prefix ''//'' u
        \<longrightarrow> buildImageUrl imageField = Some u) \<and>
   (\<forall>u. asset_url imageField = Some u \<and> u \<noteq> [] \<and> \<not> (prefix ''/'' u \<and> \<not> prefix ''//'' u)
        \<longrightarrow> buildImageUrl imageField = Some (''https:'' @ u)) \<and>
   (\<not> truthy (asset_url imageField) \<longrightarrow> buildImageUrl imageField = None) \<and>
   buildImageUrl None = None"
  by (cases "asset_url imageField")
     (simp_all add: buildImageUrl_def startsWith_prefix asset_url_def)

theorem buildImageUrl_rule_witness:
  "buildImageUrl (Some host_relative_asset) = Some ''/event-imo.jpeg'' \<and>
   buildImageUrl (Some cdn_asset) = Some ''https://images.ctfassets.net/banner.png'' \<and>
   buildImageUrl (Some fileless_asset) = None"
  using buildImageUrl_rule [of "Some host_relative_asset"]
    buildImageUrl_rule [of "Some cdn_asset"]
    buildImageUrl_rule [of "Some fileless_asset"]
  by (simp add: asset_url_def host_relative_asset_def cdn_asset_def fileless_asset_def)

text \<open>
  C2, as stated, fails: a url that starts with \<open>//\<close> starts with \<open>/\<close>, and the
  resolver does not return it unchanged but puts \<open>https:\<close> in front of it.
\<close>

theorem leading_slash_unchanged_counterexample:
  "asset_url (Some cdn_asset) = Some ''//images.ctfassets.net/banner.png'' \<and>
   startsWith ''//images.ctfassets.net/banner.png'' ''/'' \<and>
   buildImageUrl (Some cdn_asset) = Some ''https://images.ctfassets.net/banner.png'' \<and>
   buildImageUrl (Some cdn_asset) \<noteq> Some ''//images.ctfassets.net/banner.png''"
  by (simp add: asset_url_def cdn_asset_def buildImageUrl_def startsWith_def)

text \<open>
  C2, amended. For every present image reference whose url starts with \<open>/\<close> and does
  not go on with a second \<open>/\<close>, the resolver returns the url unchanged; for every
  present image reference whose url is not empty and either does not start with
  \<open>/\<close> or starts with \<open>//\<close>, it returns the url with \<open>https:\<close> in front; for
  an absent reference it returns \<^verbatim>\<open>null\<close>.
\<close>

theorem buildImageUrl_by_first_characters:
  "(\<forall>r. asset_url (Some a) = Some (CHR ''/'' # r) \<and> \<not> startsWith r ''/''
        \<longrightarrow> buildImageUrl (Some a) = Some (CHR ''/'' # r)) \<and>
   (\<forall>c r. asset_url (Some a) = Some (c # r) \<and> (c \<noteq> CHR ''/'' \<or> startsWith r ''/'')
        \<longrightarrow> buildImageUrl (Some a) = Some (''https:'' @ c # r)) \<and>
   buildImageUrl None = None"
  by (auto simp add: buildImageUrl_def startsWith_def asset_url_def split: option.splits)

theorem buildImageUrl_by_first_characters_witness:
  "buildImageUrl (Some host_relative_asset) = Some ''/event-imo.jpeg'' \<and>
   buildImageUrl (Some cdn_asset) = Some ''https://images.ctfassets.net/banner.png''"
  using buildImageUrl_by_first_characters [of host_relative_asset]
    buildImageUrl_by_first_characters [of cdn_asset]
  by (simp add: asset_url_def host_relative_asset_def cdn_asset_def startsWith_def)

subsection \<open>The event loader\<close>

text \<open>
  C3. For the identifier \<open>imo-economic-summit-2025\<close> the loader returns the built-in
  record, whatever the collaborator is, and the trace gains the call of the loader and no
  call of the collaborator's lookup. The built-in record carries that identifier.
\<close>

theorem getEventData_sentinel:
  "getEventData getEventById ''imo-economic-summit-2025'' t =
     (Some HARDCODED_EVENT_DATA, t @ [Call_getEventData ''imo-economic-summit-2025'']) \<and>
   lookups (snd (getEventData getEventById ''imo-economic-summit-2025'' t)) = lookups t \<and>
   sys_id (sys HARDCODED_EVENT_DATA) = ''imo-economic-summit-2025''"
  by (simp add: getEventData_def lookups_append HARDCODED_EVENT_DATA_def)

theorem getEventData_sentinel_witness:
  "getEventData failing_service ''imo-economic-summit-2025'' [] =
     (Some HARDCODED_EVENT_DATA, [Call_getEventData ''imo-economic-summit-2025''])"
  using getEventData_sentinel [of failing_service "[]"]
  by simp

text \<open>
  C4. For every identifier other than the built-in one: when the collaborator's lookup
  throws, the loader returns \<^verbatim>\<open>null\<close>, and a page whose event id is that
  identifier ends not found; when the lookup returns no record the loader returns
  \<^verbatim>\<open>null\<close> and the page ends not found as well. The two outcomes are the same
  value: nothing of the failure is left in it.
\<close>

theorem lookup_failure_is_not_found:
  assumes "ident \<noteq> ''imo-economic-summit-2025''"
    and "actualEventId props = Some ident"
    and "failing ident = Inl e"
    and "absent ident = Inr None"
  shows "fst (getEventData failing ident t) = None \<and>
         fst (getEventData absent ident t) = None \<and>
         fst (EventDetailPage failing getRelativeTime medium props t) = NotFound \<and>
         fst (EventDetailPage absent getRelativeTime medium props t) = NotFound"
  using assms by (simp add: getEventData_def EventDetailPage_def)

theorem lookup_failure_is_not_found_witness:
  "fst (getEventData failing_service ''land-use-forum'' []) = None \<and>
   fst (getEventData empty_service ''land-use-forum'' []) = None \<and>
   fst (EventDetailPage failing_service no_time index_delay path_request []) = NotFound \<and>
   fst (EventDetailPage empty_service no_time index_delay path_request []) = NotFound"
  using lookup_failure_is_not_found
    [of "''land-use-forum''" path_request failing_service "''service unreachable''" empty_service
        "[]" no_time index_delay]
  by (simp add: actualEventId_def js_or_def eventIdFromSearch_def path_request_def
      failing_service_def empty_service_def)

subsection \<open>The page\<close>

text \<open>
  C6. For every request whose query parameter \<^verbatim>\<open>id\<close> gives an identifier,
  as a non-empty string or as an array whose first element is a non-empty string, and
  whose path segment gives an identifier too, the event id of the page is the identifier
  of the query parameter: the loader is called with it, and the page does the same
  whatever stands in the path segment.
\<close>

theorem query_id_takes_precedence:
  assumes "searchParams_id props = Str q \<or> searchParams_id props = Arr (q # rest)"
    and "q \<noteq> []"
    and "params_id props = Some p" and "p \<noteq> []"
  shows "actualEventId props = Some q \<and>
         loader_calls (snd (EventDetailPage getEventById getRelativeTime medium props t)) =
           loader_calls t @ [q] \<and>
         EventDetailPage getEventById getRelativeTime medium props t =
           EventDetailPage getEventById getRelativeTime medium (props\<lparr>params_id := other\<rparr>) t"
proof -
  have s: "eventIdFromSearch props = Some q"
    using assms(1) by (auto simp add: eventIdFromSearch_def)
  have s': "eventIdFromSearch (props\<lparr>params_id := other\<rparr>) = Some q"
    using assms(1) by (auto simp add: eventIdFromSearch_def)
  have a: "actualEventId props = Some q"
    using s assms(2) by (simp add: actualEventId_def js_or_def)
  have b: "actualEventId (props\<lparr>params_id := other\<rparr>) = Some q"
    using s' assms(2) by (simp add: actualEventId_def js_or_def)
  have c: "loader_calls (snd (EventDetailPage getEventById getRelativeTime medium props t)) =
           loader_calls t @ [q]"
    using a assms(2) by (simp add: EventDetailPage_trace getEventData_logs_call)
  have d: "EventDetailPage getEventById getRelativeTime medium props t =
           EventDetailPage getEventById getRelativeTime medium (props\<lparr>params_id := other\<rparr>) t"
    using a b by (simp add: EventDetailPage_def)
  from a c d show ?thesis by blast
qed

theorem query_id_takes_precedence_witness:
  "actualEventId both_request = Some ''survey-day'' \<and>
   loader_calls (snd (EventDetailPage empty_service no_time index_delay both_request [])) =
     [''survey-day''] \<and>
   actualEventId repeated_request = Some ''survey-day'' \<and>
   loader_calls (snd (EventDetailPage empty_service no_time index_delay repeated_request [])) =
     [''survey-day'']"
proof -
  have q1: "searchParams_id both_request = Str ''survey-day'' \<or>
            searchParams_id both_request = Arr (''survey-day'' # [])"
    by (simp add: both_request_def)
  have p1: "params_id both_request = Some ''land-use-forum''"
    by (simp add: both_request_def)
  have q2: "searchParams_id repeated_request = Str ''survey-day'' \<or>
            searchParams_id repeated_request = Arr (''survey-day'' # [''planning-week''])"
    by (simp add: repeated_request_def)
  have p2: "params_id repeated_request = Some ''land-use-forum''"
    by (simp add: repeated_request_def)
  from query_id_takes_precedence [OF q1 _ p1, of empty_service no_time index_delay "[]"]
    query_id_takes_precedence [OF q2 _ p2, of empty_service no_time index_delay "[]"]
  show ?thesis by simp
qed

text \<open>
  C7. For every request in which neither the path segment nor the query parameter gives
  an identifier (each absent, that is falsy), the page ends not found and the trace is
  left as it was: the loader is not called.
\<close>

theorem missing_id_is_not_found:
  assumes "\<not> truthy (params_id props)" and "\<not> truthy (eventIdFromSearch props)"
  shows "EventDetailPage getEventById getRelativeTime medium props t = (NotFound, t) \<and>
         loader_calls (snd (EventDetailPage getEventById getRelativeTime medium props t)) =
           loader_calls t"
  using assms
  by (cases "params_id props"; cases "eventIdFromSearch props")
     (simp_all add: EventDetailPage_def actualEventId_def js_or_def)

theorem missing_id_is_not_found_witness:
  "EventDetailPage empty_service no_time index_delay bare_request [] = (NotFound, [])"
  using missing_id_is_not_found [of bare_request empty_service no_time index_delay "[]"]
  by (simp add: eventIdFromSearch_def bare_request_def)

subsection \<open>The details grid\<close>

text \<open>
  C5. For every event record the rows of the details grid are, in this order: the DATE
  row, always; the PHONE row exactly when \<^verbatim>\<open>contactPhoneNumber\<close> is truthy; the
  LOCATION row exactly when \<^verbatim>\<open>location\<close> is truthy; the ORGANIZER row exactly
  when the ministry reference is truthy. The rendered rows carry the same labels.
\<close>

theorem detail_rows:
  "map d_label (EventDetails_details getRelativeTime event) =
     [''DATE:''] @
     (if truthy (contactPhoneNumber (ev_fields event)) then [''PHONE:''] else []) @
     (if truthy (location (ev_fields event)) then [''LOCATION:''] else []) @
     (if ministry (ev_fields event) \<noteq> None then [''ORGANIZER:''] else []) \<and>
   map row_label (EventDetails getRelativeTime event) =
     map d_label (EventDetails_details getRelativeTime event)"
  by (simp add: EventDetails_details_def EventDetails_def render_detail_def comp_def)

theorem detail_rows_witness:
  "map row_label (EventDetails no_time HARDCODED_EVENT_DATA) =
     [''DATE:'', ''PHONE:'', ''LOCATION:'', ''ORGANIZER:''] \<and>
   map row_label (EventDetails no_time bare_event) = [''DATE:'']"
  using detail_rows [of no_time HARDCODED_EVENT_DATA] detail_rows [of no_time bare_event]
  by (simp add: HARDCODED_EVENT_DATA_def bare_event_def bare_fields_def)

text \<open>
  C10. For every event record whose ministry reference is present while its
  \<^verbatim>\<open>ministryName\<close> is absent, the ORGANIZER row is there, it is the last row, and
  its text is \<open>Ministry\<close>. Whether the row is there depends on the ministry reference
  alone: it is there exactly when the reference is present.
\<close>

theorem organizer_fallback:
  "(\<forall>m. ministry (ev_fields event) = Some m \<and>
         \<not> truthy (Option.bind (ministry_fields m) ministryName) \<longrightarrow>
      last (EventDetails_details getRelativeTime event) =
        \<lparr> d_label = ''ORGANIZER:'', d_value = Some ''Ministry'', d_show = True \<rparr> \<and>
      last (EventDetails getRelativeTime event) = PlainText ''ORGANIZER:'' (Some ''Ministry'')) \<and>
   (''ORGANIZER:'' \<in> set (map row_label (EventDetails getRelativeTime event))) =
     (ministry (ev_fields event) \<noteq> None)"
  by (auto simp add: EventDetails_details_def EventDetails_def render_detail_def or_default_def
      split: option.splits)

theorem organizer_fallback_witness:
  "last (EventDetails no_time nameless_ministry_event) = PlainText ''ORGANIZER:'' (Some ''Ministry'')"
  using organizer_fallback [of nameless_ministry_event no_time]
  by (simp add: nameless_ministry_event_def bare_fields_def)

subsection \<open>The speakers grid\<close>

text \<open>
  C8. For every event record the speakers section renders nothing exactly when neither
  speaker name is truthy; otherwise it renders at most two cards: a card for the first
  speaker exactly when the first name is truthy, then a card for the second speaker
  exactly when the second name is truthy, each with its name and its resolved image.
\<close>

theorem speaker_cards:
  "(SpeakersSection medium event = None) =
     (\<not> truthy (firstSpeaker (ev_fields event)) \<and> \<not> truthy (secondSpeaker (ev_fields event))) \<and>
   (case SpeakersSection medium event of
      None \<Rightarrow> True
    | Some cards \<Rightarrow>
        length cards \<le> 2 \<and>
        map card_speaker cards =
          (if truthy (firstSpeaker (ev_fields event))
           then [the (firstSpeaker (ev_fields event))] else []) @
          (if truthy (secondSpeaker (ev_fields event))
           then [the (secondSpeaker (ev_fields event))] else []) \<and>
        map card_image cards =
          (if truthy (firstSpeaker (ev_fields event))
           then [buildImageUrl (firstSpeakerPicture (ev_fields event))] else []) @
          (if truthy (secondSpeaker (ev_fields event))
           then [buildImageUrl (secondSpeakerPicture (ev_fields event))] else []))"
  by (cases "firstSpeaker (ev_fields event)"; cases "secondSpeaker (ev_fields event)")
     (simp_all add: SpeakersSection_def SpeakersSection_speakers_def SpeakerCard_image
        SpeakerCard_speaker or_default_def)

theorem speaker_cards_witness:
  "SpeakersSection index_delay bare_event = None \<and>
   map_option (map card_speaker) (SpeakersSection index_delay second_speaker_event) =
     Some [''Ada Obi'']"
  using speaker_cards [of index_delay bare_event]
    speaker_cards [of index_delay second_speaker_event]
  by (auto simp add: bare_event_def bare_fields_def second_speaker_event_def
      split: option.splits)

subsection \<open>The banner\<close>

text \<open>
  C9. For every event record whose banner reference resolves to \<^verbatim>\<open>null\<close>, the
  hero image is \<open>/hero_section.png\<close> and the standalone event image is not rendered.
  When the resolver gives a URL for the banner, the hero image is that URL. The
  standalone event image is rendered exactly when the resolver gives a URL that differs
  from \<open>/hero_section.png\<close>, which is exactly when the hero image differs from it,
  and it then shows that URL.
\<close>

theorem banner_fallback:
  "(buildImageUrl (bannerImage (ev_fields event)) = None \<longrightarrow>
      hero_src (EventContent getRelativeTime medium event) = ''/hero_section.png'' \<and>
      image_section (EventContent getRelativeTime medium event) = None) \<and>
   (\<forall>u. buildImageUrl (bannerImage (ev_fields event)) = Some u \<longrightarrow>
      hero_src (EventContent getRelativeTime medium event) = u) \<and>
   (image_section (EventContent getRelativeTime medium event) \<noteq> None) =
     (\<exists>u. buildImageUrl (bannerImage (ev_fields event)) = Some u \<and> u \<noteq> ''/hero_section.png'') \<and>
   (image_section (EventContent getRelativeTime medium event) \<noteq> None) =
     (hero_src (EventContent getRelativeTime medium event) \<noteq> ''/hero_section.png'') \<and>
   (\<forall>u alt. image_section (EventContent getRelativeTime medium event) = Some (u, alt) \<longrightarrow>
      buildImageUrl (bannerImage (ev_fields event)) = Some u)"
proof (cases "buildImageUrl (bannerImage (ev_fields event))")
  case None
  then show ?thesis
    by (simp add: EventContent_def bannerImageUrl_def or_default_def)
next
  case (Some u)
  with buildImageUrl_truthy [of "bannerImage (ev_fields event)"] have "u \<noteq> []"
    by simp
  with Some show ?thesis
    by (simp add: EventContent_def bannerImageUrl_def or_default_def)
qed

theorem banner_fallback_witness:
  "hero_src (EventContent no_time index_delay bare_event) = ''/hero_section.png'' \<and>
   image_section (EventContent no_time index_delay bare_event) = None \<and>
   hero_src (EventContent no_time index_delay cdn_banner_event) =
     ''https://images.ctfassets.net/banner.png'' \<and>
   image_section (EventContent no_time index_delay cdn_banner_event) \<noteq> None"
proof -
  have n: "buildImageUrl (bannerImage (ev_fields bare_event)) = None"
    by (simp add: bare_event_def bare_fields_def buildImageUrl_def asset_url_def)
  have c: "buildImageUrl (bannerImage (ev_fields cdn_banner_event)) =
           Some ''https://images.ctfassets.net/banner.png''"
    by (simp add: cdn_banner_event_def bare_fields_def cdn_asset_def buildImageUrl_def
        asset_url_def startsWith_def)
  from n c banner_fallback [of bare_event no_time index_delay]
    banner_fallback [of cdn_banner_event no_time index_delay]
  show ?thesis by simp
qed

end
